theory Spec2Isabelle
  imports Main "HOL-Library.Multiset"
begin

section \<open>The run log of armi (armi/runLog.py)\<close>

text \<open>
  The embedding follows \<^verbatim>\<open>armi/runLog.py\<close>. A Python string is a list of characters,
  each character a code point below 256. An exception is a value of type \<open>error\<close>; a
  method that mutates the log or the process returns the new state, paired with the
  exception it raised, if any. The module \<^verbatim>\<open>armi.context\<close> is not part of the sources:
  its values \<^verbatim>\<open>MPI_RANK\<close> and \<^verbatim>\<open>MPI_COMM\<close> are fields of the state. So is the state
  of Python's \<^verbatim>\<open>logging\<close> module that decides which records are delivered: the level and
  the handlers of the root logger.
\<close>

subsection \<open>Exceptions\<close>

datatype error =
    KeyError
  | IOError string

text \<open>\<open>IOError p\<close> is the \<^verbatim>\<open>FileNotFoundError\<close> of opening the missing file \<open>p\<close>.\<close>

definition strError :: "error \<Rightarrow> string" where
  "strError e = (case e of
       KeyError \<Rightarrow> ''KeyError''
     | IOError p \<Rightarrow> ''[Errno 2] No such file or directory: '' @ [CHR 0x27] @ p @ [CHR 0x27])"

subsection \<open>Strings and format specifications\<close>

definition NL :: char where
  "NL = CHR 0x0A"

text \<open>\<^verbatim>\<open>str(n)\<close> for a natural number.\<close>

fun digitsOf :: "nat \<Rightarrow> string" where
  "digitsOf n = (if n < 10 then [''0123456789'' ! n]
                 else digitsOf (n div 10) @ [''0123456789'' ! (n mod 10)])"

declare digitsOf.simps [simp del]

definition strInt :: "int \<Rightarrow> string" where
  "strInt i = (if i < 0 then CHR ''-'' # digitsOf (nat (- i)) else digitsOf (nat i))"

text \<open>\<^verbatim>\<open>{:0Wd}\<close>: zeros between the sign and the digits, up to width \<open>W\<close>.\<close>

definition fmtZero :: "nat \<Rightarrow> int \<Rightarrow> string" where
  "fmtZero W i =
     (if i < 0
      then CHR ''-'' # replicate (W - 1 - length (digitsOf (nat (- i)))) CHR ''0''
             @ digitsOf (nat (- i))
      else replicate (W - length (digitsOf (nat i))) CHR ''0'' @ digitsOf (nat i))"

text \<open>\<^verbatim>\<open>{:>0Wd}\<close>: the text of the number, filled with zeros on the left.\<close>

definition fmtRightZero :: "nat \<Rightarrow> int \<Rightarrow> string" where
  "fmtRightZero W i = replicate (W - length (strInt i)) CHR ''0'' @ strInt i"

text \<open>\<^verbatim>\<open>{:Wd}\<close>, \<^verbatim>\<open>{:<Ws}\<close> and \<^verbatim>\<open>{:^Ws}\<close>.\<close>

definition fmtRight :: "nat \<Rightarrow> int \<Rightarrow> string" where
  "fmtRight W i = replicate (W - length (strInt i)) CHR '' '' @ strInt i"

definition fmtLeft :: "nat \<Rightarrow> string \<Rightarrow> string" where
  "fmtLeft W s = s @ replicate (W - length s) CHR '' ''"

definition fmtCenter :: "nat \<Rightarrow> string \<Rightarrow> string" where
  "fmtCenter W s =
     replicate ((W - length s) div 2) CHR '' '' @ s
       @ replicate ((W - length s) - (W - length s) div 2) CHR '' ''"

text \<open>\<^verbatim>\<open>str.isspace\<close> on the code points below 256, and \<^verbatim>\<open>str.rstrip()\<close>.\<close>

definition isspace :: "char \<Rightarrow> bool" where
  "isspace c = (let n = (of_char c :: nat)
                in (9 \<le> n \<and> n \<le> 13) \<or> (28 \<le> n \<and> n \<le> 32) \<or> n = 133 \<or> n = 160)"

definition rstrip :: "string \<Rightarrow> string" where
  "rstrip s = rev (dropWhile isspace (rev s))"

text \<open>\<^verbatim>\<open>s.replace("\n", "\n" + pad)\<close>.\<close>

definition indentLines :: "string \<Rightarrow> string \<Rightarrow> string" where
  "indentLines pad s = concat (map (\<lambda>c. if c = NL then NL # pad else [c]) s)"

text \<open>The order of Python's strings, and \<^verbatim>\<open>max\<close> of a list of strings.\<close>

fun strLess :: "string \<Rightarrow> string \<Rightarrow> bool" where
  "strLess [] [] = False"
| "strLess [] (y # ys) = True"
| "strLess (x # xs) [] = False"
| "strLess (x # xs) (y # ys) =
     (if (of_char x :: nat) < of_char y then True
      else if (of_char y :: nat) < of_char x then False
      else strLess xs ys)"

definition maxStr :: "string list \<Rightarrow> string" where
  "maxStr ss = (case ss of [] \<Rightarrow> [] | s # rest \<Rightarrow> foldl (\<lambda>m t. if strLess m t then t else m) s rest)"

text \<open>\<^verbatim>\<open>os.path.join(a, b)\<close> of \<^verbatim>\<open>posixpath\<close>.\<close>

definition os_path_join :: "string \<Rightarrow> string \<Rightarrow> string" where
  "os_path_join a b =
     (if take 1 b = ''/'' then b
      else if a = [] \<or> last a = CHR ''/'' then a @ b
      else a @ ''/'' @ b)"

text \<open>\<^verbatim>\<open>_stderrName\<close> and \<^verbatim>\<open>_stdoutName\<close>, formatted.\<close>

definition stderrName :: "string \<Rightarrow> int \<Rightarrow> string" where
  "stderrName n r = n @ ''.'' @ fmtZero 4 r @ ''.stderr''"

definition stdoutName :: "string \<Rightarrow> int \<Rightarrow> string" where
  "stdoutName n r = n @ ''.'' @ fmtZero 4 r @ ''.stdout''"

subsection \<open>The table of levels\<close>

definition rankTag :: "int \<Rightarrow> string" where
  "rankTag r = (if r > 0 then CHR ''-'' # fmtRightZero 3 r else [])"

definition logLevels :: "int \<Rightarrow> (string \<times> int \<times> string) list" where
  "logLevels r =
     [(''debug'', 0, ''[dbug'' @ rankTag r @ ''] ''),
      (''extra'', 10, ''[xtra'' @ rankTag r @ ''] ''),
      (''info'', 20, ''[info'' @ rankTag r @ ''] ''),
      (''important'', 25, ''[impt'' @ rankTag r @ ''] ''),
      (''prompt'', 27, ''[prmt'' @ rankTag r @ ''] ''),
      (''warning'', 30, ''[warn'' @ rankTag r @ ''] ''),
      (''error'', 50, ''[err '' @ rankTag r @ ''] ''),
      (''header'', 100, [])]"

definition whitespace :: "int \<Rightarrow> string" where
  "whitespace r = replicate (length (maxStr (map (\<lambda>l. snd (snd l)) (logLevels r)))) CHR '' ''"

definition getLogVerbosityLevels :: "int \<Rightarrow> string list" where
  "getLogVerbosityLevels r = map fst (logLevels r)"

definition getLogVerbosityRank :: "int \<Rightarrow> string \<Rightarrow> error + int" where
  "getLogVerbosityRank r level =
     (if level \<notin> set (getLogVerbosityLevels r) then Inl KeyError
      else case map_of (logLevels r) level of
             None \<Rightarrow> Inl KeyError
           | Some (v, p) \<Rightarrow> Inr v)"

text \<open>
  The loop of \<^verbatim>\<open>_checkLogVerbsityRank\<close> over the level names; the list
  \<^verbatim>\<open>validRanks\<close> only feeds the text of the exception.
\<close>

fun checkRankLoop :: "int \<Rightarrow> string list \<Rightarrow> int \<Rightarrow> error + int" where
  "checkRankLoop r [] rank = Inl KeyError"
| "checkRankLoop r (level # levels) rank =
     (case getLogVerbosityRank r level of
        Inl e \<Rightarrow> Inl e
      | Inr expectedRank \<Rightarrow>
          if rank = expectedRank then Inr rank else checkRankLoop r levels rank)"

definition checkLogVerbsityRank :: "int \<Rightarrow> int \<Rightarrow> error + int" where
  "checkLogVerbsityRank r rank = checkRankLoop r (getLogVerbosityLevels r) rank"

subsection \<open>The state of a process and of its log\<close>

text \<open>
  A stream object is known by its identity: the console's error stream, the null device
  opened by a worker's constructor, or a file opened for writing (with the number of the
  handle, so that two openings of one path are two objects).
\<close>

datatype stream =
    Console
  | DevNull nat
  | FileStream nat string

text \<open>The communicator of \<^verbatim>\<open>armi.context\<close>, when there is one.\<close>

datatype comm = COMM_WORLD

text \<open>
  A handler of the root logger, as \<^verbatim>\<open>logging.basicConfig\<close> makes them: on a stream or
  on a file. Such a handler has no level of its own.
\<close>

datatype handler =
    StreamHandler stream
  | FileHandler string

text \<open>
  What a process holds before its log is built: the values of \<^verbatim>\<open>armi.context\<close>, the
  files and directories, the paths that cannot be removed, and the level and handlers of
  the root logger.
\<close>

record env =
  ctxRank :: int
  ctxComm :: "comm option"
  diskFiles :: "string \<rightharpoonup> string"
  diskDirs :: "string set"
  locked :: "string set"
  loggingLevel :: int
  loggingHandlers :: "handler list"

text \<open>
  One record holds the fields of the process's \<^verbatim>\<open>Log\<close> object and what it reaches from
  there: \<^verbatim>\<open>sys.stderr\<close>, the root logger, the records delivered to a handler, the text
  printed, and the files. The two counters are dictionaries in insertion order, as
  association lists.
\<close>

record proc =
  MPI_RANK :: int
  MPI_COMM :: "comm option"
  mpiRank :: int
  mpiSize :: int
  verbosity :: int
  name :: string
  singleMessageCounts :: "(string \<times> int) list"
  singleWarningMessageCounts :: "(string \<times> int) list"
  errStream :: stream
  initialErr :: stream
  sys_stderr :: stream
  rootLevel :: int
  rootHandlers :: "handler list"
  logged :: "(int \<times> string) list"
  logFileName :: "string option"
  printedOut :: string
  printedErr :: "(stream \<times> string) list"
  files :: "string \<rightharpoonup> string"
  undeletable :: "string set"
  dirs :: "string set"
  closedStreams :: "stream list"
  nextHandle :: nat

type_synonym result = "error option \<times> proc"

text \<open>Sequencing two steps: an exception of the first step ends the sequence.\<close>

definition andThen :: "result \<Rightarrow> (proc \<Rightarrow> result) \<Rightarrow> result" where
  "andThen r f = (case r of (None, w) \<Rightarrow> f w | (Some e, w) \<Rightarrow> (Some e, w))"

subsection \<open>The counters of single messages\<close>

text \<open>\<^verbatim>\<open>counts[label] += 1\<close> on a \<^verbatim>\<open>defaultdict\<close> whose default is 0.\<close>

fun incr :: "string \<Rightarrow> (string \<times> int) list \<Rightarrow> (string \<times> int) list" where
  "incr k [] = [(k, 1)]"
| "incr k ((k', c) # kvs) = (if k = k' then (k', c + 1) # kvs else (k', c) # incr k kvs)"

definition countOf :: "string \<Rightarrow> (string \<times> int) list \<Rightarrow> int" where
  "countOf k kvs = (case map_of kvs k of None \<Rightarrow> 0 | Some c \<Rightarrow> c)"

definition isWarningType :: "string \<Rightarrow> bool" where
  "isWarningType msgType = (msgType = ''warning'' \<or> msgType = ''critical'')"

definition msgHasAlreadyBeenEmitted :: "string \<Rightarrow> string \<Rightarrow> proc \<Rightarrow> bool \<times> proc" where
  "msgHasAlreadyBeenEmitted label msgType w =
     (if isWarningType msgType
      then (let w' = w\<lparr>singleWarningMessageCounts := incr label (singleWarningMessageCounts w)\<rparr>
            in (if countOf label (singleWarningMessageCounts w') > 1 then (True, w')
                else (False, w')))
      else (let w' = w\<lparr>singleMessageCounts := incr label (singleMessageCounts w)\<rparr>
            in (if countOf label (singleMessageCounts w') > 1 then (True, w')
                else (False, w'))))"

definition clearSingleWarnings :: "proc \<Rightarrow> proc" where
  "clearSingleWarnings w = w\<lparr>singleMessageCounts := []\<rparr>"

subsection \<open>Emitting a message\<close>

definition cleanMsg :: "int \<Rightarrow> string \<Rightarrow> string" where
  "cleanMsg r msg = indentLines (whitespace r) (rstrip msg)"

text \<open>
  \<^verbatim>\<open>Logger.isEnabledFor(level)\<close> of the log's logger. The logger has no level of its
  own, so its effective level is the root logger's; \<^verbatim>\<open>logging.disable\<close> is never
  called, so the threshold of the manager is 0, and a record of level 0 is refused.
\<close>

definition isEnabledFor :: "int \<Rightarrow> proc \<Rightarrow> bool" where
  "isEnabledFor lvl w = (if lvl \<le> 0 then False else rootLevel w \<le> lvl)"

text \<open>
  Whether a record of the level reaches a handler: it must be enabled, and when the root
  logger has no handler, only the handler of last resort is left, which takes the
  records from \<^verbatim>\<open>logging.WARNING\<close> (30) on.
\<close>

definition recordDelivered :: "int \<Rightarrow> proc \<Rightarrow> bool" where
  "recordDelivered lvl w =
     (if isEnabledFor lvl w then (if rootHandlers w = [] then 30 \<le> lvl else True) else False)"

text \<open>
  \<^verbatim>\<open>self.logger.log(level, msg)\<close>: the record is emitted when it is delivered to a
  handler, and dropped otherwise.
\<close>

definition loggerLog :: "int \<Rightarrow> string \<Rightarrow> proc \<Rightarrow> proc" where
  "loggerLog lvl msg w =
     (if recordDelivered lvl w then w\<lparr>logged := logged w @ [(lvl, msg)]\<rparr> else w)"

text \<open>\<^verbatim>\<open>if label is None: label = msg\<close>.\<close>

definition labelOrMsg :: "string option \<Rightarrow> string \<Rightarrow> string" where
  "labelOrMsg label msg = (case label of None \<Rightarrow> msg | Some l \<Rightarrow> l)"

definition standardLogMsg :: "string \<Rightarrow> string \<Rightarrow> bool \<Rightarrow> string option \<Rightarrow> proc \<Rightarrow> result" where
  "standardLogMsg msgType msg single label w =
     (let label' = labelOrMsg label msg
      in case map_of (logLevels (MPI_RANK w)) msgType of
           None \<Rightarrow> (Some KeyError, w)
         | Some (msgVerbosity, msgLabel) \<Rightarrow>
             if msgVerbosity < verbosity w then (None, w)
             else if single
             then (case msgHasAlreadyBeenEmitted label' msgType w of
                     (True, w') \<Rightarrow> (None, w')
                   | (False, w') \<Rightarrow>
                       (None, loggerLog msgVerbosity (cleanMsg (MPI_RANK w) msg) w'))
             else (None, loggerLog msgVerbosity (cleanMsg (MPI_RANK w) msg) w))"

text \<open>The functions of the module, which call the process's log.\<close>

definition info :: "string \<Rightarrow> bool \<Rightarrow> string option \<Rightarrow> proc \<Rightarrow> result" where
  "info msg single label w = standardLogMsg ''info'' msg single label w"

definition warning :: "string \<Rightarrow> bool \<Rightarrow> string option \<Rightarrow> proc \<Rightarrow> result" where
  "warning msg single label w = standardLogMsg ''warning'' msg single label w"

definition error :: "string \<Rightarrow> bool \<Rightarrow> string option \<Rightarrow> proc \<Rightarrow> result" where
  "error msg single label w = standardLogMsg ''error'' msg single label w"

subsection \<open>The verbosity\<close>

datatype levelInput =
    StrLevel string
  | IntLevel int

definition setVerbosity :: "levelInput \<Rightarrow> proc \<Rightarrow> result" where
  "setVerbosity levelInput w =
     (case (case levelInput of
              StrLevel s \<Rightarrow> getLogVerbosityRank (MPI_RANK w) s
            | IntLevel i \<Rightarrow> checkLogVerbsityRank (MPI_RANK w) i) of
        Inl e \<Rightarrow> (Some e, w)
      | Inr v \<Rightarrow> (None, w\<lparr>verbosity := v\<rparr>))"

definition getVerbosity :: "proc \<Rightarrow> int" where
  "getVerbosity w = verbosity w"

subsection \<open>The error stream\<close>

definition setErrStream :: "stream \<Rightarrow> proc \<Rightarrow> proc" where
  "setErrStream s w = w\<lparr>sys_stderr := s, errStream := s\<rparr>"

definition restoreErrStream :: "proc \<Rightarrow> proc" where
  "restoreErrStream w =
     (if sys_stderr w = errStream w then w\<lparr>sys_stderr := initialErr w\<rparr> else w)"

subsection \<open>The warning report\<close>

definition reportLine :: "string \<times> int \<Rightarrow> string" where
  "reportLine e = (case e of (label, cnt) \<Rightarrow>
       ''  '' @ fmtRight 10 cnt @ ''   '' @ fmtLeft 25 label)"

fun reportLoop :: "(string \<times> int) list \<Rightarrow> proc \<Rightarrow> result" where
  "reportLoop [] w = (None, w)"
| "reportLoop (e # es) w = andThen (info (reportLine e) False None w) (reportLoop es)"

text \<open>\<^verbatim>\<open>sorted(items, key=operator.itemgetter(1))\<close>: a stable sort on the counts.\<close>

definition sortedByCount :: "(string \<times> int) list \<Rightarrow> (string \<times> int) list" where
  "sortedByCount items = sort_key snd items"

definition warningReport :: "proc \<Rightarrow> result" where
  "warningReport w =
     andThen (info ''----- Final Warning Count --------'' False None w) (\<lambda>w1.
     andThen (info (''  '' @ fmtCenter 10 ''COUNT'' @ ''   '' @ fmtCenter 25 ''LABEL'')
                False None w1) (\<lambda>w2.
     andThen (reportLoop (sortedByCount (singleWarningMessageCounts w)) w2) (\<lambda>w3.
     info ''------------------------------------'' False None w3)))"

subsection \<open>The log of a parallel run\<close>

text \<open>
  \<^verbatim>\<open>logging.basicConfig(filename=..., level=...)\<close>. It does nothing when the root logger
  has a handler. Otherwise it makes a handler, on \<^verbatim>\<open>sys.stderr\<close> or on the file, which it
  opens at once for appending, and sets the level of the root logger. Opening a file in
  a directory that does not exist raises \<^verbatim>\<open>FileNotFoundError\<close>, before anything is set.
  The file name of the call is recorded.
\<close>

definition parentDir :: "string \<Rightarrow> string" where
  "parentDir path = rev (drop 1 (dropWhile (\<lambda>c. c \<noteq> CHR ''/'') (rev path)))"

definition dirExists :: "string \<Rightarrow> proc \<Rightarrow> bool" where
  "dirExists d w = (d = [] \<or> d \<in> dirs w)"

definition basicConfig :: "string option \<Rightarrow> int \<Rightarrow> proc \<Rightarrow> result" where
  "basicConfig filename level w =
     (let w0 = w\<lparr>logFileName := filename\<rparr>
      in if rootHandlers w0 \<noteq> [] then (None, w0)
         else case filename of
                None \<Rightarrow>
                  (None, w0\<lparr>rootHandlers := [StreamHandler (sys_stderr w0)],
                            rootLevel := level\<rparr>)
              | Some f \<Rightarrow>
                  if dirExists (parentDir f) w0
                  then (None, w0\<lparr>files := (files w0)(f \<mapsto> (case files w0 f of
                                                            None \<Rightarrow> [] | Some d \<Rightarrow> d)),
                                 rootHandlers := [FileHandler f],
                                 rootLevel := level\<rparr>)
                  else (Some (IOError f), w0))"

text \<open>
  \<^verbatim>\<open>Log.__init__\<close>, in a process that holds \<open>e\<close>. \<^verbatim>\<open>logging.INFO\<close> is 20 and
  \<^verbatim>\<open>logging.WARNING\<close> is 30. The parent configures the root logger at the end.
\<close>

definition Log_init :: "env \<Rightarrow> int \<Rightarrow> int \<Rightarrow> proc" where
  "Log_init e rank groupSize =
     (let err = (if rank = 0 then Console else DevNull 0);
          w = \<lparr>MPI_RANK = ctxRank e, MPI_COMM = ctxComm e, mpiRank = rank, mpiSize = groupSize,
               verbosity = 20, name = ''log'',
               singleMessageCounts = [], singleWarningMessageCounts = [],
               errStream = err, initialErr = err, sys_stderr = err,
               rootLevel = loggingLevel e, rootHandlers = loggingHandlers e,
               logged = [], logFileName = None, printedOut = [], printedErr = [],
               files = diskFiles e, undeletable = locked e, dirs = diskDirs e,
               closedStreams = [], nextHandle = 1\<rparr>
      in if rank = 0 then snd (basicConfig None 20 w) else w)"

text \<open>
  \<^verbatim>\<open>_createLogDir\<close>: the directory is made unless the path exists; on a file system that
  shows a directory once it is made, the waiting loop ends at once.
\<close>

definition createLogDir :: "proc \<Rightarrow> proc" where
  "createLogDir w =
     (if ''logs'' \<in> dirs w \<or> files w ''logs'' \<noteq> None then w
      else w\<lparr>dirs := insert ''logs'' (dirs w)\<rparr>)"

text \<open>The two paths a worker computes in \<^verbatim>\<open>startLog\<close>, from \<^verbatim>\<open>self.name\<close>.\<close>

definition workerStdoutPath :: "string \<Rightarrow> int \<Rightarrow> string" where
  "workerStdoutPath selfName rank = os_path_join selfName (stdoutName selfName rank)"

definition workerStderrPath :: "string \<Rightarrow> int \<Rightarrow> string" where
  "workerStderrPath selfName rank = stderrName selfName rank"

text \<open>The two paths the parent computes in \<^verbatim>\<open>concatenateLogs\<close>, from \<^verbatim>\<open>self.name\<close>.\<close>

definition parentStdoutPath :: "string \<Rightarrow> int \<Rightarrow> string" where
  "parentStdoutPath selfName rank = os_path_join ''logs'' (stdoutName selfName rank)"

definition parentStderrPath :: "string \<Rightarrow> int \<Rightarrow> string" where
  "parentStderrPath selfName rank = os_path_join ''logs'' (stderrName selfName rank)"

text \<open>
  \<^verbatim>\<open>open(path, "w")\<close>: the file is made empty and the stream is a new object; in a
  directory that does not exist the call raises \<^verbatim>\<open>FileNotFoundError\<close>.
\<close>

definition openWrite :: "string \<Rightarrow> proc \<Rightarrow> error + stream \<times> proc" where
  "openWrite path w =
     (if dirExists (parentDir path) w
      then Inr (FileStream (nextHandle w) path,
                w\<lparr>files := (files w)(path \<mapsto> []), nextHandle := Suc (nextHandle w)\<rparr>)
      else Inl (IOError path))"

text \<open>\<^verbatim>\<open>PrintLog.startLog\<close>. The barrier changes nothing in the process.\<close>

definition startLog :: "string \<Rightarrow> proc \<Rightarrow> result" where
  "startLog n w =
     (let w1 = w\<lparr>name := os_path_join ''logs'' n\<rparr>;
          w2 = (if mpiRank w1 = 0 then createLogDir w1 else w1)
      in andThen
           (if mpiRank w2 > 0
            then basicConfig (Some (workerStdoutPath (name w2) (mpiRank w2))) 30
                   (w2\<lparr>verbosity := 30\<rparr>)
            else (None, w2))
           (\<lambda>w3. if mpiSize w3 = 1 \<or> MPI_COMM w3 = None then (None, w3)
                  else if mpiRank w3 > 0
                  then (case openWrite (workerStderrPath (name w3) (mpiRank w3)) w3 of
                          Inl e \<Rightarrow> (Some e, w3)
                        | Inr (s, w4) \<Rightarrow> (None, setErrStream s w4))
                  else (None, w3)))"

text \<open>\<^verbatim>\<open>print(x)\<close> and \<^verbatim>\<open>print(x, file=sys.stderr)\<close>.\<close>

definition printOut :: "string \<Rightarrow> proc \<Rightarrow> proc" where
  "printOut x w = w\<lparr>printedOut := printedOut w @ x @ [NL]\<rparr>"

definition printErr :: "string \<Rightarrow> proc \<Rightarrow> proc" where
  "printErr x w = w\<lparr>printedErr := printedErr w @ [(sys_stderr w, x @ [NL])]\<rparr>"

definition rankId :: "int \<Rightarrow> string \<Rightarrow> string" where
  "rankId rank kind =
     [NL] @ replicate 10 CHR ''-'' @ '' RANK '' @ fmtZero 3 rank @ '' '' @ kind @ '' ''
       @ replicate 60 CHR ''-'' @ [NL]"

text \<open>\<^verbatim>\<open>os.remove(path)\<close> inside \<^verbatim>\<open>try\<close>, with the warning of its \<^verbatim>\<open>except OSError\<close>.\<close>

definition removeOrWarn :: "string \<Rightarrow> proc \<Rightarrow> result" where
  "removeOrWarn path w =
     (if path \<in> undeletable w \<or> files w path = None
      then warning (''Could not delete '' @ path) False None w
      else (None, w\<lparr>files := (files w)(path := None)\<rparr>))"

text \<open>One round of the loop of \<^verbatim>\<open>concatenateLogs\<close>, for one rank.\<close>

definition concatenateRank :: "int \<Rightarrow> proc \<Rightarrow> result" where
  "concatenateRank rank w =
     (let stdoutPath = parentStdoutPath (name w) rank;
          stderrPath = parentStderrPath (name w) rank
      in andThen
           (case files w stdoutPath of
              None \<Rightarrow> (None, w)
            | Some data \<Rightarrow>
                removeOrWarn stdoutPath
                  (if data \<noteq> [] then printOut data (printOut (rankId rank ''STDOUT'') w)
                   else w))
           (\<lambda>w1.
              if files w1 stdoutPath \<noteq> None
              then (case files w1 stderrPath of
                      None \<Rightarrow> (Some (IOError stderrPath), w1)
                    | Some data \<Rightarrow>
                        removeOrWarn stderrPath
                          (if data \<noteq> [] then printErr data (printErr (rankId rank ''STDERR'') w1)
                           else w1))
              else (None, w1)))"

fun concatenateLoop :: "int list \<Rightarrow> proc \<Rightarrow> result" where
  "concatenateLoop [] w = (None, w)"
| "concatenateLoop (rank # ranks) w = andThen (concatenateRank rank w) (concatenateLoop ranks)"

definition concatenateLogs :: "proc \<Rightarrow> result" where
  "concatenateLogs w =
     andThen (info (''Concatenating '' @ strInt (mpiSize w) @ '' standard streams'') False None w)
       (concatenateLoop [1 .. mpiSize w - 1])"

text \<open>\<^verbatim>\<open>PrintLog.close\<close>; \<^verbatim>\<open>except IOError\<close> takes the exception of a missing file.\<close>

definition close :: "proc \<Rightarrow> result" where
  "close w =
     (case (if mpiRank w = 0 \<and> mpiSize w > 1
            then (case concatenateLogs w of
                    (Some (IOError p), w1) \<Rightarrow>
                      andThen (warning ''Failed to concatenate logs due to IOError.'' False None w1)
                        (error (strError (IOError p)) False None)
                  | r \<Rightarrow> r)
            else if mpiRank w > 0 \<and> mpiSize w > 1
            then (None, w\<lparr>closedStreams := closedStreams w @ [errStream w]\<rparr>)
            else (None, w)) of
        (None, w2) \<Rightarrow> (None, restoreErrStream w2)
      | (Some e, w2) \<Rightarrow> (Some e, w2))"

subsection \<open>Runs of calls and example processes\<close>

text \<open>A run of calls of \<^verbatim>\<open>_msgHasAlreadyBeenEmitted\<close>, each with its label and type.\<close>

fun runChecks :: "(string \<times> string) list \<Rightarrow> proc \<Rightarrow> proc" where
  "runChecks [] w = w"
| "runChecks (c # cs) w = runChecks cs (snd (msgHasAlreadyBeenEmitted (fst c) (snd c) w))"

text \<open>The same single warning, \<open>n\<close> times in a row.\<close>

fun warnTimes :: "nat \<Rightarrow> string \<Rightarrow> proc \<Rightarrow> proc" where
  "warnTimes 0 m w = w"
| "warnTimes (Suc n) m w = warnTimes n m (snd (warning m True None w))"

text \<open>
  What a process holds when nothing has touched its \<^verbatim>\<open>logging\<close> module: the root logger
  is at \<^verbatim>\<open>logging.WARNING\<close> and has no handler.
\<close>

definition freshEnv ::
  "int \<Rightarrow> comm option \<Rightarrow> (string \<rightharpoonup> string) \<Rightarrow> string set \<Rightarrow> env" where
  "freshEnv r c fs ds =
     \<lparr>ctxRank = r, ctxComm = c, diskFiles = fs, diskDirs = ds, locked = {},
      loggingLevel = 30, loggingHandlers = []\<rparr>"

text \<open>The log of a run of one process, with no files.\<close>

definition soloLog :: proc where
  "soloLog = Log_init (freshEnv 0 None Map.empty {}) 0 1"

text \<open>The same log once the verbosity is set by name to \<^verbatim>\<open>error\<close> or \<^verbatim>\<open>warning\<close>.\<close>

definition errorOnlyLog :: proc where
  "errorOnlyLog = snd (setVerbosity (StrLevel ''error'') soloLog)"

definition warningOnlyLog :: proc where
  "warningOnlyLog = snd (setVerbosity (StrLevel ''warning'') soloLog)"

text \<open>Label A warned about twice and label B five times, with \<^verbatim>\<open>single=True\<close>.\<close>

definition warnedAB :: "proc \<Rightarrow> proc" where
  "warnedAB w = warnTimes 5 ''B'' (warnTimes 2 ''A'' w)"

text \<open>The same warnings, label B first.\<close>

definition warnedBA :: "proc \<Rightarrow> proc" where
  "warnedBA w = warnTimes 2 ''A'' (warnTimes 5 ''B'' w)"

text \<open>
  A group of three. Worker 1 in a process whose \<^verbatim>\<open>logging\<close> module is untouched, before
  \<^verbatim>\<open>startLog\<close>; the directory of the logs exists.
\<close>

definition freshWorker1 :: proc where
  "freshWorker1 = Log_init (freshEnv 1 (Some COMM_WORLD) Map.empty {''logs''}) 1 3"

text \<open>
  Worker 1 after \<^verbatim>\<open>startLog("run")\<close>, in a process whose root logger had a handler
  before the log was built, so that \<^verbatim>\<open>logging.basicConfig\<close> does nothing.
\<close>

definition worker1 :: proc where
  "worker1 =
     snd (startLog ''run''
       (Log_init ((freshEnv 1 (Some COMM_WORLD) Map.empty {''logs''})
                    \<lparr>loggingHandlers := [StreamHandler Console]\<rparr>) 1 3))"

text \<open>The parent after \<^verbatim>\<open>startLog("run")\<close>, on the given files.\<close>

definition parentOf3 :: "(string \<rightharpoonup> string) \<Rightarrow> proc" where
  "parentOf3 fs = snd (startLog ''run'' (Log_init (freshEnv 0 (Some COMM_WORLD) fs {}) 0 3))"

text \<open>
  The log of one process whose host has set the root logger to \<^verbatim>\<open>logging.ERROR\<close> (40),
  with a handler, before the log was built.
\<close>

definition hostedLog :: proc where
  "hostedLog =
     Log_init ((freshEnv 0 None Map.empty {})
                 \<lparr>loggingLevel := 40, loggingHandlers := [StreamHandler Console]\<rparr>) 0 1"

text \<open>
  The files of the scenario, at the paths \<^verbatim>\<open>concatenateLogs\<close> reads for rank 1: the
  output file holds one line, the error file is empty; rank 2 has no file.
\<close>

definition helloFiles :: "string \<rightharpoonup> string" where
  "helloFiles =
     [parentStdoutPath ''logs/run'' 1 \<mapsto> ''hello'' @ [NL],
      parentStderrPath ''logs/run'' 1 \<mapsto> []]"

text \<open>Worker 1 once some other owner has put its own stream in \<^verbatim>\<open>sys.stderr\<close>.\<close>

definition worker1Overridden :: proc where
  "worker1Overridden = worker1\<lparr>sys_stderr := FileStream 7 ''other.stderr''\<rparr>"

text \<open>The solo log once label Y has been warned about, with \<^verbatim>\<open>single=True\<close>.\<close>

definition seenY :: proc where
  "seenY = snd (warning ''Y'' True None soloLog)"

text \<open>
  The class of a message type in the words of the specification: the types
  \<^verbatim>\<open>warning\<close> and \<^verbatim>\<open>error\<close> are of the warning class, every other type is of the other
  class. It is to be compared with \<open>isWarningType\<close>, the test of the code.
\<close>

definition specWarningLike :: "string \<Rightarrow> bool" where
  "specWarningLike msgType = (msgType = ''warning'' \<or> msgType = ''error'')"

section \<open>Properties\<close>

subsection \<open>The table of levels and the counters\<close>

lemma getLogVerbosityRank_cases:
  "getLogVerbosityRank r s =
     (if s = ''debug'' then Inr 0 else if s = ''extra'' then Inr 10
      else if s = ''info'' then Inr 20 else if s = ''important'' then Inr 25
      else if s = ''prompt'' then Inr 27 else if s = ''warning'' then Inr 30
      else if s = ''error'' then Inr 50 else if s = ''header'' then Inr 100
      else Inl KeyError)"
  by (simp add: getLogVerbosityRank_def getLogVerbosityLevels_def logLevels_def)

lemma checkLogVerbsityRank_cases:
  "checkLogVerbsityRank r i =
     (if i \<in> {0, 10, 20, 25, 27, 30, 50, 100} then Inr i else Inl KeyError)"
  by (simp add: checkLogVerbsityRank_def getLogVerbosityLevels_def logLevels_def
      getLogVerbosityRank_cases)

lemma level_warning: "map_of (logLevels r) ''warning'' = Some (30, ''[warn'' @ rankTag r @ ''] '')"
  by (simp add: logLevels_def)

lemma level_info: "map_of (logLevels r) ''info'' = Some (20, ''[info'' @ rankTag r @ ''] '')"
  by (simp add: logLevels_def)

lemma countOf_incr_same: "countOf k (incr k kvs) = countOf k kvs + 1"
  by (induction kvs) (auto simp: countOf_def)

lemma countOf_incr_other: "k' \<noteq> k \<Longrightarrow> countOf k' (incr k kvs) = countOf k' kvs"
  by (induction kvs) (auto simp: countOf_def)

lemma countOf_unseen: "map_of kvs k = None \<Longrightarrow> countOf k kvs = 0"
  by (simp add: countOf_def)

subsection \<open>Setting the verbosity\<close>

text \<open>
  Claim C7. \<^verbatim>\<open>setVerbosity\<close> succeeds and stores the rank exactly when its argument is
  one of the eight names of the table (in this spelling) or an integer equal to one of the
  ranks 0, 10, 20, 25, 27, 30, 50, 100. Any other string and any other integer raises the
  exception of an invalid verbosity, which the code raises as a \<^verbatim>\<open>KeyError\<close>.
\<close>

theorem setVerbosity_accepts_exactly_the_levels:
  "(s \<in> {''debug'', ''extra'', ''info'', ''important'', ''prompt'', ''warning'', ''error'',
          ''header''}
      \<longrightarrow> (\<exists>v p. (s, v, p) \<in> set (logLevels (MPI_RANK w))
                 \<and> setVerbosity (StrLevel s) w = (None, w\<lparr>verbosity := v\<rparr>)))
   \<and> (s \<notin> {''debug'', ''extra'', ''info'', ''important'', ''prompt'', ''warning'', ''error'',
            ''header''}
      \<longrightarrow> fst (setVerbosity (StrLevel s) w) = Some KeyError)
   \<and> (i \<in> {0, 10, 20, 25, 27, 30, 50, 100}
      \<longrightarrow> setVerbosity (IntLevel i) w = (None, w\<lparr>verbosity := i\<rparr>))
   \<and> (i \<notin> {0, 10, 20, 25, 27, 30, 50, 100}
      \<longrightarrow> fst (setVerbosity (IntLevel i) w) = Some KeyError)"
proof (intro conjI impI)
  assume "s \<in> {''debug'', ''extra'', ''info'', ''important'', ''prompt'', ''warning'', ''error'',
          ''header''}"
  then show "\<exists>v p. (s, v, p) \<in> set (logLevels (MPI_RANK w))
                 \<and> setVerbosity (StrLevel s) w = (None, w\<lparr>verbosity := v\<rparr>)"
    by (auto simp: setVerbosity_def getLogVerbosityRank_cases logLevels_def)
next
  assume "s \<notin> {''debug'', ''extra'', ''info'', ''important'', ''prompt'', ''warning'', ''error'',
          ''header''}"
  then show "fst (setVerbosity (StrLevel s) w) = Some KeyError"
    by (simp add: setVerbosity_def getLogVerbosityRank_cases)
next
  assume "i \<in> {0, 10, 20, 25, 27, 30, 50, 100}"
  then show "setVerbosity (IntLevel i) w = (None, w\<lparr>verbosity := i\<rparr>)"
    by (simp add: setVerbosity_def checkLogVerbsityRank_cases)
next
  assume "i \<notin> {0, 10, 20, 25, 27, 30, 50, 100}"
  then show "fst (setVerbosity (IntLevel i) w) = Some KeyError"
    by (simp add: setVerbosity_def checkLogVerbsityRank_cases)
qed

theorem setVerbosity_accepts_exactly_the_levels_witness:
  "verbosity (snd (setVerbosity (StrLevel ''warning'') soloLog)) = 30
   \<and> fst (setVerbosity (StrLevel ''warning'') soloLog) = None
   \<and> fst (setVerbosity (StrLevel ''Warning'') soloLog) = Some KeyError
   \<and> setVerbosity (IntLevel 27) soloLog = (None, soloLog\<lparr>verbosity := 27\<rparr>)
   \<and> fst (setVerbosity (IntLevel 26) soloLog) = Some KeyError"
proof -
  have a: "''warning'' \<in> {''debug'', ''extra'', ''info'', ''important'', ''prompt'',
      ''warning'', ''error'', ''header''}"
    by simp
  have b: "''Warning'' \<notin> {''debug'', ''extra'', ''info'', ''important'', ''prompt'',
      ''warning'', ''error'', ''header''}"
    by simp
  have c: "(27::int) \<in> {0, 10, 20, 25, 27, 30, 50, 100}"
    by simp
  have d: "(26::int) \<notin> {0, 10, 20, 25, 27, 30, 50, 100}"
    by simp
  note T = setVerbosity_accepts_exactly_the_levels [of "''warning''" soloLog 27]
  note U = setVerbosity_accepts_exactly_the_levels [of "''Warning''" soloLog 26]
  from T [THEN conjunct1, THEN mp, OF a]
  obtain v p where vp: "(''warning'', v, p) \<in> set (logLevels (MPI_RANK soloLog))"
    and sv: "setVerbosity (StrLevel ''warning'') soloLog = (None, soloLog\<lparr>verbosity := v\<rparr>)"
    by (elim exE conjE)
  from vp have "v = 30"
    by (simp add: logLevels_def)
  with sv have one: "verbosity (snd (setVerbosity (StrLevel ''warning'') soloLog)) = 30"
    and two: "fst (setVerbosity (StrLevel ''warning'') soloLog) = None"
    by simp_all
  note three = U [THEN conjunct2, THEN conjunct1, THEN mp, OF b]
  note four = T [THEN conjunct2, THEN conjunct2, THEN conjunct1, THEN mp, OF c]
  note five = U [THEN conjunct2, THEN conjunct2, THEN conjunct2, THEN mp, OF d]
  show ?thesis
    by (intro conjI one two three four five)
qed

text \<open>
  Claim C10. A call of \<^verbatim>\<open>setVerbosity\<close> with a string that is not a name of the table,
  or with an integer that is not a rank of the table, raises and leaves the log as it
  was; and after any call that raises, the verbosity read is the one read before the call.
\<close>

theorem setVerbosity_failure_keeps_verbosity:
  "(s \<notin> {''debug'', ''extra'', ''info'', ''important'', ''prompt'', ''warning'', ''error'',
          ''header''}
      \<longrightarrow> setVerbosity (StrLevel s) w = (Some KeyError, w))
   \<and> (i \<notin> {0, 10, 20, 25, 27, 30, 50, 100}
      \<longrightarrow> setVerbosity (IntLevel i) w = (Some KeyError, w))
   \<and> (fst (setVerbosity l w) \<noteq> None
      \<longrightarrow> getVerbosity (snd (setVerbosity l w)) = getVerbosity w)"
proof (intro conjI impI)
  assume "s \<notin> {''debug'', ''extra'', ''info'', ''important'', ''prompt'', ''warning'', ''error'',
          ''header''}"
  then show "setVerbosity (StrLevel s) w = (Some KeyError, w)"
    by (simp add: setVerbosity_def getLogVerbosityRank_cases)
next
  assume "i \<notin> {0, 10, 20, 25, 27, 30, 50, 100}"
  then show "setVerbosity (IntLevel i) w = (Some KeyError, w)"
    by (simp add: setVerbosity_def checkLogVerbsityRank_cases)
next
  assume "fst (setVerbosity l w) \<noteq> None"
  then have "snd (setVerbosity l w) = w"
    by (simp add: setVerbosity_def split: sum.splits levelInput.splits)
  then show "getVerbosity (snd (setVerbosity l w)) = getVerbosity w"
    by simp
qed

theorem setVerbosity_failure_keeps_verbosity_witness:
  "setVerbosity (StrLevel ''taco'') warningOnlyLog = (Some KeyError, warningOnlyLog)
   \<and> setVerbosity (IntLevel 5000) warningOnlyLog = (Some KeyError, warningOnlyLog)
   \<and> getVerbosity warningOnlyLog = 30
   \<and> getVerbosity (snd (setVerbosity (IntLevel 5000) warningOnlyLog)) = 30"
proof -
  have a: "''taco'' \<notin> {''debug'', ''extra'', ''info'', ''important'', ''prompt'', ''warning'',
      ''error'', ''header''}"
    by simp
  have b: "(5000::int) \<notin> {0, 10, 20, 25, 27, 30, 50, 100}"
    by simp
  have c: "getVerbosity warningOnlyLog = 30"
    by (simp add: getVerbosity_def warningOnlyLog_def setVerbosity_def getLogVerbosityRank_cases)
  note T = setVerbosity_failure_keeps_verbosity
    [where s = "''taco''" and i = 5000 and l = "IntLevel 5000" and w = warningOnlyLog]
  note one = T [THEN conjunct1, THEN mp, OF a]
  note two = T [THEN conjunct2, THEN conjunct1, THEN mp, OF b]
  have d: "fst (setVerbosity (IntLevel 5000) warningOnlyLog) \<noteq> None"
    by (simp add: two)
  note three = T [THEN conjunct2, THEN conjunct2, THEN mp, OF d]
  from three c have four: "getVerbosity (snd (setVerbosity (IntLevel 5000) warningOnlyLog)) = 30"
    by simp
  show ?thesis
    by (intro conjI one two c four)
qed

subsection \<open>Restoring the error stream\<close>

text \<open>
  Claim C9. \<^verbatim>\<open>_restoreErrStream\<close> puts the remembered first stream back into
  \<^verbatim>\<open>sys.stderr\<close> when \<^verbatim>\<open>sys.stderr\<close> is still the stream this log installed; otherwise it
  changes nothing; and restoring twice gives the state that restoring once gives.
\<close>

theorem restoreErrStream_idempotent:
  "(sys_stderr w = errStream w \<longrightarrow> sys_stderr (restoreErrStream w) = initialErr w)
   \<and> (sys_stderr w \<noteq> errStream w \<longrightarrow> restoreErrStream w = w)
   \<and> restoreErrStream (restoreErrStream w) = restoreErrStream w"
  by (simp add: restoreErrStream_def)

theorem restoreErrStream_idempotent_witness:
  "sys_stderr worker1 = errStream worker1
   \<and> sys_stderr worker1 = FileStream 1 ''logs/run.0001.stderr''
   \<and> sys_stderr (restoreErrStream worker1) = DevNull 0
   \<and> sys_stderr worker1Overridden \<noteq> errStream worker1Overridden
   \<and> sys_stderr (restoreErrStream worker1Overridden) = FileStream 7 ''other.stderr''
   \<and> restoreErrStream (restoreErrStream worker1) = restoreErrStream worker1"
proof -
  have a: "sys_stderr worker1 = errStream worker1"
    by code_simp
  have b: "sys_stderr worker1 = FileStream 1 ''logs/run.0001.stderr''"
    by code_simp
  have c: "initialErr worker1 = DevNull 0"
    by code_simp
  have d: "sys_stderr worker1Overridden \<noteq> errStream worker1Overridden"
    by code_simp
  have e: "sys_stderr worker1Overridden = FileStream 7 ''other.stderr''"
    by (simp add: worker1Overridden_def)
  from a b c d e restoreErrStream_idempotent [of worker1]
    restoreErrStream_idempotent [of worker1Overridden]
  show ?thesis
    by simp
qed

subsection \<open>Single messages\<close>

lemma recordDelivered_logged [simp]:
  "recordDelivered lvl (w\<lparr>logged := x\<rparr>) = recordDelivered lvl w"
  by (simp add: recordDelivered_def isEnabledFor_def)

lemma recordDelivered_warning_counts [simp]:
  "recordDelivered lvl (w\<lparr>singleWarningMessageCounts := x\<rparr>) = recordDelivered lvl w"
  by (simp add: recordDelivered_def isEnabledFor_def)

lemma warning_single_first:
  "verbosity w \<le> 30 \<Longrightarrow> recordDelivered 30 w \<Longrightarrow>
   countOf (labelOrMsg lab m) (singleWarningMessageCounts w) = 0 \<Longrightarrow>
   warning m True lab w =
     (None, w\<lparr>singleWarningMessageCounts := incr (labelOrMsg lab m) (singleWarningMessageCounts w),
               logged := logged w @ [(30, cleanMsg (MPI_RANK w) m)]\<rparr>)"
  by (simp add: warning_def standardLogMsg_def level_warning msgHasAlreadyBeenEmitted_def
      isWarningType_def countOf_incr_same loggerLog_def Let_def)

lemma warning_single_again:
  "verbosity w \<le> 30 \<Longrightarrow> 0 < countOf (labelOrMsg lab m) (singleWarningMessageCounts w) \<Longrightarrow>
   warning m True lab w =
     (None, w\<lparr>singleWarningMessageCounts := incr (labelOrMsg lab m) (singleWarningMessageCounts w)\<rparr>)"
  by (simp add: warning_def standardLogMsg_def level_warning msgHasAlreadyBeenEmitted_def
      isWarningType_def countOf_incr_same Let_def)

lemma runChecks_warning_count:
  "countOf k (singleWarningMessageCounts (runChecks cs w)) =
     countOf k (singleWarningMessageCounts w)
       + int (length (filter (\<lambda>c. fst c = k \<and> isWarningType (snd c)) cs))"
proof (induction cs arbitrary: w)
  case Nil
  then show ?case by simp
next
  case (Cons c cs)
  show ?case
    by (cases "fst c = k")
      (simp_all add: Cons.IH msgHasAlreadyBeenEmitted_def Let_def countOf_incr_same
        countOf_incr_other)
qed

lemma runChecks_other_count:
  "countOf k (singleMessageCounts (runChecks cs w)) =
     countOf k (singleMessageCounts w)
       + int (length (filter (\<lambda>c. fst c = k \<and> \<not> isWarningType (snd c)) cs))"
proof (induction cs arbitrary: w)
  case Nil
  then show ?case by simp
next
  case (Cons c cs)
  show ?case
    by (cases "fst c = k")
      (simp_all add: Cons.IH msgHasAlreadyBeenEmitted_def Let_def countOf_incr_same
        countOf_incr_other)
qed

lemma check_after_calls:
  assumes "map_of (if isWarningType t then singleWarningMessageCounts w
                   else singleMessageCounts w) k = None"
  shows "fst (msgHasAlreadyBeenEmitted k t (runChecks cs w)) =
           (\<exists>c \<in> set cs. fst c = k \<and> isWarningType (snd c) = isWarningType t)"
proof (cases "isWarningType t")
  case True
  with assms have z: "countOf k (singleWarningMessageCounts w) = 0"
    by (simp add: countOf_unseen)
  have "fst (msgHasAlreadyBeenEmitted k t (runChecks cs w)) =
          (0 < length (filter (\<lambda>c. fst c = k \<and> isWarningType (snd c)) cs))"
    using True by (simp add: msgHasAlreadyBeenEmitted_def Let_def countOf_incr_same
        runChecks_warning_count z)
  also have "\<dots> = (\<exists>c \<in> set cs. fst c = k \<and> isWarningType (snd c) = isWarningType t)"
    using True by (auto simp: filter_empty_conv)
  finally show ?thesis .
next
  case False
  with assms have z: "countOf k (singleMessageCounts w) = 0"
    by (simp add: countOf_unseen)
  have "fst (msgHasAlreadyBeenEmitted k t (runChecks cs w)) =
          (0 < length (filter (\<lambda>c. fst c = k \<and> \<not> isWarningType (snd c)) cs))"
    using False by (simp add: msgHasAlreadyBeenEmitted_def Let_def countOf_incr_same
        runChecks_other_count z)
  also have "\<dots> = (\<exists>c \<in> set cs. fst c = k \<and> isWarningType (snd c) = isWarningType t)"
    using False by (auto simp: filter_empty_conv)
  finally show ?thesis .
qed

text \<open>
  On the names of the table other than \<^verbatim>\<open>error\<close>, the test of the code and the class of
  the specification agree.
\<close>

lemma class_agrees:
  "t \<in> set (getLogVerbosityLevels r) \<Longrightarrow> t \<noteq> ''error'' \<Longrightarrow> isWarningType t = specWarningLike t"
  by (auto simp: getLogVerbosityLevels_def logLevels_def isWarningType_def specWarningLike_def)

text \<open>
  What \<^verbatim>\<open>standardLogMsg\<close> does to the counters: below the verbosity the state is left as
  it was; at or above it, with \<^verbatim>\<open>single=True\<close>, the count of the label goes up by one in
  the counter that the test of the code selects.
\<close>

lemma standardLogMsg_counts:
  assumes lv: "map_of (logLevels (MPI_RANK w)) msgType = Some (r, p)"
  shows "(r < verbosity w \<longrightarrow> standardLogMsg msgType msg single label w = (None, w))
       \<and> (verbosity w \<le> r \<and> isWarningType msgType \<longrightarrow>
            countOf (labelOrMsg label msg)
                (singleWarningMessageCounts (snd (standardLogMsg msgType msg True label w)))
              = countOf (labelOrMsg label msg) (singleWarningMessageCounts w) + 1)
       \<and> (verbosity w \<le> r \<and> \<not> isWarningType msgType \<longrightarrow>
            countOf (labelOrMsg label msg)
                (singleMessageCounts (snd (standardLogMsg msgType msg True label w)))
              = countOf (labelOrMsg label msg) (singleMessageCounts w) + 1)"
  using lv
  by (simp add: standardLogMsg_def msgHasAlreadyBeenEmitted_def Let_def countOf_incr_same
      loggerLog_def)

text \<open>
  Claim C5. A message of type \<^verbatim>\<open>error\<close> with \<^verbatim>\<open>single=True\<close>, at a verbosity that lets it
  through, is emitted, and its label is counted with the other messages: the counter of
  warnings, to which the class of \<^verbatim>\<open>error\<close> belongs, is left as it was.
\<close>

theorem single_error_skips_the_warning_counter:
  "map_of (logLevels (MPI_RANK soloLog)) ''error'' = Some (50, ''[err ] '')
   \<and> verbosity soloLog \<le> 50
   \<and> specWarningLike ''error''
   \<and> logged (snd (standardLogMsg ''error'' ''text'' True (Some ''L'') soloLog)) = [(50, ''text'')]
   \<and> singleWarningMessageCounts (snd (standardLogMsg ''error'' ''text'' True (Some ''L'') soloLog))
       = singleWarningMessageCounts soloLog
   \<and> countOf ''L''
        (singleWarningMessageCounts (snd (standardLogMsg ''error'' ''text'' True (Some ''L'') soloLog)))
       = 0
   \<and> countOf ''L''
        (singleMessageCounts (snd (standardLogMsg ''error'' ''text'' True (Some ''L'') soloLog)))
       = 1"
  by code_simp

text \<open>
  Claim C6, as amended. With the verbosity at or below the rank of warnings (30), a
  logger that delivers the records of level 30, and a counter that has not seen the
  label, a warning with \<^verbatim>\<open>single=True\<close> given twice under one label is emitted once, and
  two warnings under two labels, neither seen before, are both emitted. For the names of
  the table other than \<^verbatim>\<open>error\<close>, the check of a label not yet seen in its class returns
  false at its first call and true at every later call of a run of checks with the same
  label and the same class.
\<close>

theorem single_warning_once:
  "(verbosity w \<le> 30 \<and> recordDelivered 30 w
          \<and> map_of (singleWarningMessageCounts w) (labelOrMsg labA mA) = None
          \<and> labelOrMsg labB mB = labelOrMsg labA mA
          \<longrightarrow> logged (snd (warning mB True labB (snd (warning mA True labA w))))
                = logged w @ [(30, cleanMsg (MPI_RANK w) mA)])
       \<and> (verbosity w \<le> 30 \<and> recordDelivered 30 w
          \<and> map_of (singleWarningMessageCounts w) (labelOrMsg labA mA) = None
          \<and> map_of (singleWarningMessageCounts w) (labelOrMsg labB mB) = None
          \<and> labelOrMsg labB mB \<noteq> labelOrMsg labA mA
          \<longrightarrow> logged (snd (warning mB True labB (snd (warning mA True labA w))))
                = logged w @ [(30, cleanMsg (MPI_RANK w) mA), (30, cleanMsg (MPI_RANK w) mB)])
       \<and> (t \<in> set (getLogVerbosityLevels (MPI_RANK w)) \<and> t \<noteq> ''error''
          \<and> (\<forall>c \<in> set cs. snd c \<in> set (getLogVerbosityLevels (MPI_RANK w)) \<and> snd c \<noteq> ''error'')
          \<and> map_of (if specWarningLike t then singleWarningMessageCounts w
                     else singleMessageCounts w) k = None
          \<longrightarrow> fst (msgHasAlreadyBeenEmitted k t (runChecks cs w))
                = (\<exists>c \<in> set cs. fst c = k \<and> specWarningLike (snd c) = specWarningLike t))"
proof (intro conjI impI)
  assume a: "verbosity w \<le> 30 \<and> recordDelivered 30 w
          \<and> map_of (singleWarningMessageCounts w) (labelOrMsg labA mA) = None
          \<and> labelOrMsg labB mB = labelOrMsg labA mA"
  then have v: "verbosity w \<le> 30" and d: "recordDelivered 30 w"
    by simp_all
  from a have z: "countOf (labelOrMsg labA mA) (singleWarningMessageCounts w) = 0"
    by (simp add: countOf_unseen)
  let ?w1 = "w\<lparr>singleWarningMessageCounts := incr (labelOrMsg labA mA) (singleWarningMessageCounts w),
               logged := logged w @ [(30, cleanMsg (MPI_RANK w) mA)]\<rparr>"
  have first: "warning mA True labA w = (None, ?w1)"
    using v d z by (rule warning_single_first)
  have seen: "0 < countOf (labelOrMsg labB mB) (singleWarningMessageCounts ?w1)"
    using a z by (simp add: countOf_incr_same)
  have "verbosity ?w1 \<le> 30" using v by simp
  then have "warning mB True labB ?w1 =
      (None, ?w1\<lparr>singleWarningMessageCounts := incr (labelOrMsg labB mB) (singleWarningMessageCounts ?w1)\<rparr>)"
    using seen by (rule warning_single_again)
  then show "logged (snd (warning mB True labB (snd (warning mA True labA w))))
                = logged w @ [(30, cleanMsg (MPI_RANK w) mA)]"
    by (simp add: first)
next
  assume a: "verbosity w \<le> 30 \<and> recordDelivered 30 w
          \<and> map_of (singleWarningMessageCounts w) (labelOrMsg labA mA) = None
          \<and> map_of (singleWarningMessageCounts w) (labelOrMsg labB mB) = None
          \<and> labelOrMsg labB mB \<noteq> labelOrMsg labA mA"
  then have v: "verbosity w \<le> 30" and d: "recordDelivered 30 w"
    by simp_all
  from a have z: "countOf (labelOrMsg labA mA) (singleWarningMessageCounts w) = 0"
    by (simp add: countOf_unseen)
  let ?w1 = "w\<lparr>singleWarningMessageCounts := incr (labelOrMsg labA mA) (singleWarningMessageCounts w),
               logged := logged w @ [(30, cleanMsg (MPI_RANK w) mA)]\<rparr>"
  have first: "warning mA True labA w = (None, ?w1)"
    using v d z by (rule warning_single_first)
  have unseen: "countOf (labelOrMsg labB mB) (singleWarningMessageCounts ?w1) = 0"
    using a by (simp add: countOf_incr_other countOf_unseen)
  have v1: "verbosity ?w1 \<le> 30" using v by simp
  have d1: "recordDelivered 30 ?w1" using d by simp
  have "warning mB True labB ?w1 =
      (None, ?w1\<lparr>singleWarningMessageCounts := incr (labelOrMsg labB mB) (singleWarningMessageCounts ?w1),
                 logged := logged ?w1 @ [(30, cleanMsg (MPI_RANK ?w1) mB)]\<rparr>)"
    using v1 d1 unseen by (rule warning_single_first)
  then show "logged (snd (warning mB True labB (snd (warning mA True labA w))))
                = logged w @ [(30, cleanMsg (MPI_RANK w) mA), (30, cleanMsg (MPI_RANK w) mB)]"
    by (simp add: first)
next
  assume a: "t \<in> set (getLogVerbosityLevels (MPI_RANK w)) \<and> t \<noteq> ''error''
          \<and> (\<forall>c \<in> set cs. snd c \<in> set (getLogVerbosityLevels (MPI_RANK w)) \<and> snd c \<noteq> ''error'')
          \<and> map_of (if specWarningLike t then singleWarningMessageCounts w
                     else singleMessageCounts w) k = None"
  have ct: "isWarningType t = specWarningLike t"
  proof (rule class_agrees)
    show "t \<in> set (getLogVerbosityLevels (MPI_RANK w))" using a by simp
    show "t \<noteq> ''error''" using a by simp
  qed
  have cc: "isWarningType (snd c) = specWarningLike (snd c)" if "c \<in> set cs" for c
  proof (rule class_agrees)
    show "snd c \<in> set (getLogVerbosityLevels (MPI_RANK w))" using a that by simp
    show "snd c \<noteq> ''error''" using a that by simp
  qed
  from a ct have "map_of (if isWarningType t then singleWarningMessageCounts w
                   else singleMessageCounts w) k = None"
    by simp
  then have "fst (msgHasAlreadyBeenEmitted k t (runChecks cs w))
             = (\<exists>c \<in> set cs. fst c = k \<and> isWarningType (snd c) = isWarningType t)"
    by (rule check_after_calls)
  also have "\<dots> = (\<exists>c \<in> set cs. fst c = k \<and> specWarningLike (snd c) = specWarningLike t)"
    using cc ct by auto
  finally show "fst (msgHasAlreadyBeenEmitted k t (runChecks cs w))
                = (\<exists>c \<in> set cs. fst c = k \<and> specWarningLike (snd c) = specWarningLike t)" .
qed

theorem single_warning_once_witness:
  "verbosity soloLog \<le> 30
   \<and> recordDelivered 30 soloLog
   \<and> map_of (singleWarningMessageCounts soloLog) ''X'' = None
   \<and> logged (snd (warning ''X'' True None (snd (warning ''X'' True None soloLog))))
       = [(30, ''X'')]
   \<and> logged (snd (warning ''Y'' True None (snd (warning ''X'' True None soloLog))))
       = [(30, ''X''), (30, ''Y'')]
   \<and> fst (msgHasAlreadyBeenEmitted ''X'' ''warning'' (runChecks [] errorOnlyLog)) = False
   \<and> fst (msgHasAlreadyBeenEmitted ''X'' ''warning''
            (runChecks [(''X'', ''info''), (''Y'', ''warning'')] errorOnlyLog)) = False
   \<and> fst (msgHasAlreadyBeenEmitted ''X'' ''warning''
            (runChecks [(''X'', ''warning''), (''Y'', ''warning'')] errorOnlyLog)) = True"
proof -
  have v: "verbosity soloLog \<le> 30"
    by code_simp
  have d: "recordDelivered 30 soloLog"
    by code_simp
  have u: "map_of (singleWarningMessageCounts soloLog) ''X'' = None"
    by code_simp
  have h1: "verbosity soloLog \<le> 30 \<and> recordDelivered 30 soloLog
          \<and> map_of (singleWarningMessageCounts soloLog) (labelOrMsg None ''X'') = None
          \<and> labelOrMsg None ''X'' = labelOrMsg None ''X''"
    by code_simp
  have h2: "verbosity soloLog \<le> 30 \<and> recordDelivered 30 soloLog
          \<and> map_of (singleWarningMessageCounts soloLog) (labelOrMsg None ''X'') = None
          \<and> map_of (singleWarningMessageCounts soloLog) (labelOrMsg None ''Y'') = None
          \<and> labelOrMsg None ''Y'' \<noteq> labelOrMsg None ''X''"
    by code_simp
  have h3: "''warning'' \<in> set (getLogVerbosityLevels (MPI_RANK errorOnlyLog))
          \<and> ''warning'' \<noteq> ''error''
          \<and> (\<forall>c \<in> set []. snd c \<in> set (getLogVerbosityLevels (MPI_RANK errorOnlyLog))
                \<and> snd c \<noteq> ''error'')
          \<and> map_of (if specWarningLike ''warning'' then singleWarningMessageCounts errorOnlyLog
                     else singleMessageCounts errorOnlyLog) ''X'' = None"
    by code_simp
  have h4: "''warning'' \<in> set (getLogVerbosityLevels (MPI_RANK errorOnlyLog))
          \<and> ''warning'' \<noteq> ''error''
          \<and> (\<forall>c \<in> set [(''X'', ''info''), (''Y'', ''warning'')].
                snd c \<in> set (getLogVerbosityLevels (MPI_RANK errorOnlyLog)) \<and> snd c \<noteq> ''error'')
          \<and> map_of (if specWarningLike ''warning'' then singleWarningMessageCounts errorOnlyLog
                     else singleMessageCounts errorOnlyLog) ''X'' = None"
    by code_simp
  have h5: "''warning'' \<in> set (getLogVerbosityLevels (MPI_RANK errorOnlyLog))
          \<and> ''warning'' \<noteq> ''error''
          \<and> (\<forall>c \<in> set [(''X'', ''warning''), (''Y'', ''warning'')].
                snd c \<in> set (getLogVerbosityLevels (MPI_RANK errorOnlyLog)) \<and> snd c \<noteq> ''error'')
          \<and> map_of (if specWarningLike ''warning'' then singleWarningMessageCounts errorOnlyLog
                     else singleMessageCounts errorOnlyLog) ''X'' = None"
    by code_simp
  have l: "logged soloLog = []" and r: "MPI_RANK soloLog = 0"
    by code_simp+
  have cx: "cleanMsg 0 ''X'' = ''X''" and cy: "cleanMsg 0 ''Y'' = ''Y''"
    by code_simp+
  note one = single_warning_once [where w = soloLog and labA = None and mA = "''X''"
      and labB = None and mB = "''X''",
      THEN conjunct1, THEN mp, OF h1]
  note two = single_warning_once [where w = soloLog and labA = None and mA = "''X''"
      and labB = None and mB = "''Y''",
      THEN conjunct2, THEN conjunct1, THEN mp, OF h2]
  note three = single_warning_once [where w = errorOnlyLog and t = "''warning''"
      and k = "''X''" and cs = "[]",
      THEN conjunct2, THEN conjunct2, THEN mp, OF h3]
  note four = single_warning_once [where w = errorOnlyLog and t = "''warning''" and k = "''X''"
      and cs = "[(''X'', ''info''), (''Y'', ''warning'')]",
      THEN conjunct2, THEN conjunct2, THEN mp, OF h4]
  note five = single_warning_once [where w = errorOnlyLog and t = "''warning''" and k = "''X''"
      and cs = "[(''X'', ''warning''), (''Y'', ''warning'')]",
      THEN conjunct2, THEN conjunct2, THEN mp, OF h5]
  from v d u one two three four five show ?thesis
    by (simp add: l r cx cy specWarningLike_def)
qed

text \<open>
  Claim C6 as it is written fails in four ways. Once the verbosity is set to
  \<^verbatim>\<open>error\<close>, a warning with \<^verbatim>\<open>single=True\<close> and a label never seen, given twice, emits
  no line. In a process whose host has set the root logger to \<^verbatim>\<open>logging.ERROR\<close>, the
  verbosity lets the same two warnings through and the logger drops them. From a state
  that has never seen label X and has seen label Y, warnings under the two distinct
  labels X and Y add one line, not two. And after a single \<^verbatim>\<open>info\<close> message under X,
  the first check of X for an \<^verbatim>\<open>error\<close> message returns true.
\<close>

theorem single_warning_once_counterexample:
  "map_of (singleWarningMessageCounts errorOnlyLog) ''X'' = None
   \<and> map_of (singleMessageCounts errorOnlyLog) ''X'' = None
   \<and> logged errorOnlyLog = []
   \<and> logged (snd (warning ''X'' True None (snd (warning ''X'' True None errorOnlyLog)))) = []
   \<and> length (logged (snd (warning ''X'' True None (snd (warning ''X'' True None errorOnlyLog)))))
       \<noteq> length (logged errorOnlyLog) + 1
   \<and> verbosity hostedLog \<le> 30
   \<and> map_of (singleWarningMessageCounts hostedLog) ''X'' = None
   \<and> logged (snd (warning ''X'' True None (snd (warning ''X'' True None hostedLog)))) = []
   \<and> map_of (singleWarningMessageCounts seenY) ''X'' = None
   \<and> logged seenY = [(30, ''Y'')]
   \<and> logged (snd (warning ''Y'' True None (snd (warning ''X'' True None seenY))))
       = [(30, ''Y''), (30, ''X'')]
   \<and> map_of (singleWarningMessageCounts soloLog) ''X'' = None
   \<and> fst (msgHasAlreadyBeenEmitted ''X'' ''error'' (runChecks [(''X'', ''info'')] soloLog)) = True"
  by code_simp

subsection \<open>The warning report\<close>

lemma info_emits:
  "verbosity w \<le> 20 \<Longrightarrow> recordDelivered 20 w \<Longrightarrow>
   info m False None w = (None, w\<lparr>logged := logged w @ [(20, cleanMsg (MPI_RANK w) m)]\<rparr>)"
  by (simp add: info_def standardLogMsg_def level_info loggerLog_def Let_def)

lemma reportLoop_emits:
  "verbosity w \<le> 20 \<Longrightarrow> recordDelivered 20 w \<Longrightarrow>
   reportLoop es w =
     (None, w\<lparr>logged := logged w @ map (\<lambda>e. (20, cleanMsg (MPI_RANK w) (reportLine e))) es\<rparr>)"
proof (induction es arbitrary: w)
  case Nil
  then show ?case by simp
next
  case (Cons e es)
  let ?w1 = "w\<lparr>logged := logged w @ [(20, cleanMsg (MPI_RANK w) (reportLine e))]\<rparr>"
  have "verbosity ?w1 \<le> 20" using Cons.prems by simp
  moreover have "recordDelivered 20 ?w1" using Cons.prems by simp
  ultimately have "reportLoop es ?w1 =
     (None, ?w1\<lparr>logged := logged ?w1 @ map (\<lambda>e. (20, cleanMsg (MPI_RANK ?w1) (reportLine e))) es\<rparr>)"
    by (rule Cons.IH)
  then show ?case
    using Cons.prems by (simp add: info_emits andThen_def)
qed

text \<open>
  Claim C8, as amended. When the verbosity is at or below the rank of \<^verbatim>\<open>info\<close> (20) and
  the logger delivers the records of level 20, \<^verbatim>\<open>warningReport\<close> emits its two heading
  lines, then one formatted line for every entry of the counter of warnings, then its
  closing line; the entries come in ascending order of their counts, and entries of equal
  count keep the order in which their labels were first counted.
\<close>

theorem warningReport_lists_by_count:
  assumes v: "verbosity w \<le> 20" and d: "recordDelivered 20 w"
  shows "warningReport w =
           (None, w\<lparr>logged := logged w
              @ [(20, cleanMsg (MPI_RANK w) ''----- Final Warning Count --------''),
                 (20, cleanMsg (MPI_RANK w)
                        (''  '' @ fmtCenter 10 ''COUNT'' @ ''   '' @ fmtCenter 25 ''LABEL''))]
              @ map (\<lambda>e. (20, cleanMsg (MPI_RANK w) (reportLine e)))
                  (sortedByCount (singleWarningMessageCounts w))
              @ [(20, cleanMsg (MPI_RANK w) ''------------------------------------'')]\<rparr>)
       \<and> mset (sortedByCount (singleWarningMessageCounts w)) = mset (singleWarningMessageCounts w)
       \<and> sorted (map snd (sortedByCount (singleWarningMessageCounts w)))
       \<and> (\<forall>c. filter (\<lambda>e. snd e = c) (sortedByCount (singleWarningMessageCounts w))
                = filter (\<lambda>e. snd e = c) (singleWarningMessageCounts w))"
proof (intro conjI allI)
  show "warningReport w =
           (None, w\<lparr>logged := logged w
              @ [(20, cleanMsg (MPI_RANK w) ''----- Final Warning Count --------''),
                 (20, cleanMsg (MPI_RANK w)
                        (''  '' @ fmtCenter 10 ''COUNT'' @ ''   '' @ fmtCenter 25 ''LABEL''))]
              @ map (\<lambda>e. (20, cleanMsg (MPI_RANK w) (reportLine e)))
                  (sortedByCount (singleWarningMessageCounts w))
              @ [(20, cleanMsg (MPI_RANK w) ''------------------------------------'')]\<rparr>)"
    using v d by (simp add: warningReport_def info_emits reportLoop_emits andThen_def)
next
  show "mset (sortedByCount (singleWarningMessageCounts w)) = mset (singleWarningMessageCounts w)"
    by (simp add: sortedByCount_def)
next
  show "sorted (map snd (sortedByCount (singleWarningMessageCounts w)))"
    by (simp add: sortedByCount_def)
next
  fix c
  show "filter (\<lambda>e. snd e = c) (sortedByCount (singleWarningMessageCounts w))
                = filter (\<lambda>e. snd e = c) (singleWarningMessageCounts w)"
    by (simp add: sortedByCount_def sort_key_stable)
qed

theorem warningReport_lists_by_count_witness:
  "verbosity (warnedBA soloLog) \<le> 20
   \<and> recordDelivered 20 (warnedBA soloLog)
   \<and> singleWarningMessageCounts (warnedBA soloLog) = [(''B'', 5), (''A'', 2)]
   \<and> logged (snd (warningReport (warnedBA soloLog))) =
       [(30, ''B''), (30, ''A''),
        (20, ''----- Final Warning Count --------''),
        (20, ''    COUNT                LABEL''),
        (20, ''           2   A''),
        (20, ''           5   B''),
        (20, ''------------------------------------'')]"
proof -
  have v: "verbosity (warnedBA soloLog) \<le> 20"
    by code_simp
  have d: "recordDelivered 20 (warnedBA soloLog)"
    by code_simp
  have c: "singleWarningMessageCounts (warnedBA soloLog) = [(''B'', 5), (''A'', 2)]"
    by code_simp
  have l: "logged (warnedBA soloLog) = [(30, ''B''), (30, ''A'')]"
    by code_simp
  have r: "MPI_RANK (warnedBA soloLog) = 0"
    by code_simp
  have s: "sortedByCount [(''B'', 5), (''A'', 2)] = [(''A'', 2), (''B'', 5)]"
    by code_simp
  have f1: "cleanMsg 0 ''----- Final Warning Count --------''
              = ''----- Final Warning Count --------''"
    by code_simp
  have f2: "cleanMsg 0 (CHR '' '' # CHR '' '' # fmtCenter 10 ''COUNT''
                @ CHR '' '' # CHR '' '' # CHR '' '' # fmtCenter 25 ''LABEL'')
              = ''    COUNT                LABEL''"
    by code_simp
  have f3: "cleanMsg 0 (reportLine (''A'', 2)) = ''           2   A''"
    by code_simp
  have f4: "cleanMsg 0 (reportLine (''B'', 5)) = ''           5   B''"
    by code_simp
  have f5: "cleanMsg 0 ''------------------------------------''
              = ''------------------------------------''"
    by code_simp
  note rep = warningReport_lists_by_count [OF v d, THEN conjunct1]
  have "logged (snd (warningReport (warnedBA soloLog))) =
       [(30, ''B''), (30, ''A''),
        (20, ''----- Final Warning Count --------''),
        (20, ''    COUNT                LABEL''),
        (20, ''           2   A''),
        (20, ''           5   B''),
        (20, ''------------------------------------'')]"
    unfolding rep by (simp add: c l r s f1 f2 f3 f4 f5)
  with v d c show ?thesis
    by simp
qed

text \<open>
  Claim C8 as it is written fails in two ways, with label A warned about twice and label
  B five times. With the verbosity set to \<^verbatim>\<open>warning\<close>, \<^verbatim>\<open>warningReport\<close> emits nothing,
  neither heading nor entry. On a worker in a process whose \<^verbatim>\<open>logging\<close> module is
  untouched, the verbosity is still that of \<^verbatim>\<open>info\<close>, the root logger stands at
  \<^verbatim>\<open>logging.WARNING\<close>, and every line of the report is dropped by the logger.
\<close>

theorem warningReport_lists_by_count_counterexample:
  "singleWarningMessageCounts (warnedAB warningOnlyLog) = [(''A'', 2), (''B'', 5)]
   \<and> logged (warnedAB warningOnlyLog) = [(30, ''A''), (30, ''B'')]
   \<and> fst (warningReport (warnedAB warningOnlyLog)) = None
   \<and> logged (snd (warningReport (warnedAB warningOnlyLog))) = [(30, ''A''), (30, ''B'')]
   \<and> verbosity (warnedAB freshWorker1) = 20
   \<and> rootLevel (warnedAB freshWorker1) = 30
   \<and> singleWarningMessageCounts (warnedAB freshWorker1) = [(''A'', 2), (''B'', 5)]
   \<and> logged (warnedAB freshWorker1) = [(30, ''A''), (30, ''B'')]
   \<and> fst (warningReport (warnedAB freshWorker1)) = None
   \<and> logged (snd (warningReport (warnedAB freshWorker1))) = [(30, ''A''), (30, ''B'')]"
  by code_simp

subsection \<open>Where the code leaves its documentation\<close>

text \<open>
  Claim C2. \<^verbatim>\<open>clearSingleWarnings\<close> empties the counter of the other messages only:
  a single warning given before the call keeps its count, and the same warning given
  after the call is still held back.
\<close>

theorem clearSingleWarnings_keeps_warning_counts:
  "logged (snd (warning ''X'' True None soloLog)) = [(30, ''X'')]
   \<and> singleWarningMessageCounts (clearSingleWarnings (snd (warning ''X'' True None soloLog)))
       = [(''X'', 1)]
   \<and> logged (snd (warning ''X'' True None
        (clearSingleWarnings (snd (warning ''X'' True None soloLog))))) = [(30, ''X'')]"
  by code_simp

text \<open>
  Claim C3. The counter of warnings is used for the types \<^verbatim>\<open>warning\<close> and
  \<^verbatim>\<open>critical\<close>; the table has no level \<^verbatim>\<open>critical\<close>, and a message of type \<^verbatim>\<open>error\<close> is
  counted with the other messages. A single error and a single info message under one
  label share a counter: the second is held back, and the error is absent from the
  counter that the warning report reads.
\<close>

theorem error_counts_with_other_messages:
  "isWarningType ''error'' = False
   \<and> map_of (logLevels 0) ''critical'' = None
   \<and> logged (snd (info ''X'' True None (snd (error ''X'' True None soloLog)))) = [(50, ''X'')]
   \<and> singleMessageCounts (snd (info ''X'' True None (snd (error ''X'' True None soloLog))))
       = [(''X'', 2)]
   \<and> singleWarningMessageCounts (snd (error ''X'' True None soloLog)) = []"
  by code_simp

text \<open>
  Claim C4. For the run name \<^verbatim>\<open>run\<close> and rank 1, the worker opens its error file at
  \<^verbatim>\<open>logs/run.0001.stderr\<close> and hands \<^verbatim>\<open>logs/run/logs/run.0001.stdout\<close> to the logging
  module, while the parent reads and deletes \<^verbatim>\<open>logs/logs/run.0001.stdout\<close> and
  \<^verbatim>\<open>logs/logs/run.0001.stderr\<close>: the error file the worker made is still there after the
  parent has closed its log. That worker runs where the root logger already had a
  handler; in a process whose \<^verbatim>\<open>logging\<close> module is untouched, the logging module opens
  the output file at once, its directory does not exist, and \<^verbatim>\<open>startLog\<close> raises before
  the error file is opened.
\<close>

theorem worker_and_parent_paths_differ:
  "name worker1 = ''logs/run''
   \<and> name (parentOf3 (files worker1)) = ''logs/run''
   \<and> workerStderrPath (name worker1) 1 = ''logs/run.0001.stderr''
   \<and> errStream worker1 = FileStream 1 ''logs/run.0001.stderr''
   \<and> logFileName worker1 = Some ''logs/run/logs/run.0001.stdout''
   \<and> parentStdoutPath (name (parentOf3 (files worker1))) 1 = ''logs/logs/run.0001.stdout''
   \<and> parentStderrPath (name (parentOf3 (files worker1))) 1 = ''logs/logs/run.0001.stderr''
   \<and> files worker1 ''logs/run.0001.stderr'' = Some []
   \<and> fst (close (parentOf3 (files worker1))) = None
   \<and> files (snd (close (parentOf3 (files worker1)))) ''logs/run.0001.stderr'' = Some []
   \<and> fst (startLog ''run'' freshWorker1) = Some (IOError ''logs/run/logs/run.0001.stdout'')
   \<and> files (snd (startLog ''run'' freshWorker1)) ''logs/run.0001.stderr'' = None"
  by code_simp

text \<open>
  Claim C1. In a group of three, with the output file of rank 1 holding one line and its
  error file empty, both at the paths the parent reads, and no file of rank 2,
  \<^verbatim>\<open>close\<close> prints the heading of rank 1 and the line and removes the output file; the
  error file is looked for only while the output file still exists, so it is neither read
  nor removed.
\<close>

theorem close_leaves_the_error_file:
  "helloFiles ''logs/logs/run.0001.stdout'' = Some (''hello'' @ [NL])
   \<and> helloFiles ''logs/logs/run.0001.stderr'' = Some []
   \<and> fst (close (parentOf3 helloFiles)) = None
   \<and> printedOut (snd (close (parentOf3 helloFiles)))
       = rankId 1 ''STDOUT'' @ [NL] @ ''hello'' @ [NL, NL]
   \<and> printedErr (snd (close (parentOf3 helloFiles))) = []
   \<and> files (snd (close (parentOf3 helloFiles))) ''logs/logs/run.0001.stdout'' = None
   \<and> files (snd (close (parentOf3 helloFiles))) ''logs/logs/run.0001.stderr'' = Some []"
  by code_simp

end
